theory Spec2Isabelle
  imports Main
begin

section \<open>The Shopify integration form: data model\<close>

text \<open>
  The component \<^verbatim>\<open>ShopifyForm\<close> keeps seven pieces of React state and reacts to four
  user actions and one effect. Each handler is embedded as a function from the state before
  the action to the state after it. What the outside world answers (the settled result of
  each awaited service call, the answer to the confirmation dialog) is an argument of the
  handler. Two further fields of the state record what the handler did to the outside world:
  the service calls it issued and the timers it scheduled.

  A handler function gives the writes of one handler in their order, from the click to
  its \<^verbatim>\<open>finally\<close> block, with no other handler in between; every awaited call settles,
  with a response or with a rejection. A later section splits each handler at its
  \<^verbatim>\<open>await\<close>s, so that handlers which overlap in time are covered too. The
  \<^verbatim>\<open>console.error\<close> lines of the \<^verbatim>\<open>catch\<close> blocks write no state and are left out.

  JavaScript strings are kept as byte strings in UTF-8. The handlers only compare strings
  with the empty string and store them, and both are the same on the UTF-8 form.
\<close>

type_synonym jsstring = string

text \<open>The object sent by \<^verbatim>\<open>saveConfig\<close>, which is also the shape of \<^verbatim>\<open>formData\<close>.\<close>

record ShopifyConfig =
  store_url :: jsstring
  access_token :: jsstring
  api_version :: jsstring

text \<open>The \<^verbatim>\<open>data\<close> object of a \<^verbatim>\<open>ShopifyConfigResponse\<close>.\<close>

record ConfigData =
  data_id :: int
  business_id :: int
  data_store_url :: jsstring
  data_access_token :: "jsstring option"
  data_api_version :: jsstring
  is_active :: bool
  created_at :: jsstring
  updated_at :: jsstring

record ShopifyConfigResponse =
  cfg_success :: bool
  cfg_data :: "ConfigData option"
  cfg_error :: "jsstring option"

text \<open>The result types of \<^verbatim>\<open>deleteConfig\<close> and \<^verbatim>\<open>testConnection\<close>.\<close>

record DeleteResponse =
  del_success :: bool
  del_error :: "jsstring option"

record TestResponse =
  test_success :: bool
  test_error :: "jsstring option"
  test_message :: "jsstring option"

text \<open>
  An awaited service call either resolves to a response or rejects; a rejection is what the
  \<^verbatim>\<open>catch\<close> blocks receive. \<open>Inl\<close> is the rejection.
\<close>

datatype fault = TransportFault jsstring

type_synonym 'a outcome = "fault + 'a"

text \<open>The state variable \<^verbatim>\<open>integrationStatus\<close>; an absent property is \<open>None\<close>.\<close>

record IntegrationStatus =
  isIntegrated :: bool
  status_store_url :: "jsstring option"
  status_access_token :: "jsstring option"
  status_api_version :: "jsstring option"
  lastUpdated :: "jsstring option"

text \<open>The props. A callback is known by a label; only its presence matters to the handlers.\<close>

type_synonym callback = string

record props =
  businessId :: int
  onSuccess :: "callback option"
  onCancel :: "callback option"

text \<open>The service calls of \<^verbatim>\<open>ShopifyService\<close>, as they are logged.\<close>

datatype call =
    GetConfig int
  | SaveConfig int ShopifyConfig
  | DeleteConfig int
  | TestConnection int

text \<open>
  The seven \<^verbatim>\<open>useState\<close> variables, followed by the log of issued service calls and the
  log of timers set with \<^verbatim>\<open>setTimeout\<close> (callback and delay in milliseconds).
\<close>

record state =
  integrationStatus :: IntegrationStatus
  formData :: ShopifyConfig
  loading :: bool
  saving :: bool
  deleting :: bool
  error :: "jsstring option"
  success :: "jsstring option"
  calls :: "call list"
  timers :: "(callback \<times> nat) list"

definition notIntegrated :: IntegrationStatus where
  "notIntegrated =
     \<lparr>isIntegrated = False, status_store_url = None, status_access_token = None,
      status_api_version = None, lastUpdated = None\<rparr>"

definition defaultFormData :: ShopifyConfig where
  "defaultFormData = \<lparr>store_url = [], access_token = [], api_version = ''2024-01''\<rparr>"

text \<open>The state of the first render: the initial values given to \<^verbatim>\<open>useState\<close>.\<close>

definition initialState :: state where
  "initialState =
     \<lparr>integrationStatus = notIntegrated, formData = defaultFormData,
      loading = False, saving = False, deleting = False,
      error = None, success = None, calls = [], timers = []\<rparr>"

subsection \<open>JavaScript truthiness and constants\<close>

text \<open>An optional string is truthy when it is defined and not empty.\<close>

definition truthy :: "jsstring option \<Rightarrow> bool" where
  "truthy x = (case x of None \<Rightarrow> False | Some s \<Rightarrow> s \<noteq> [])"

text \<open>\<^verbatim>\<open>x || d\<close> on an optional string \<open>x\<close> and a string literal \<open>d\<close>.\<close>

definition js_or :: "jsstring option \<Rightarrow> jsstring \<Rightarrow> jsstring" where
  "js_or x d = (if truthy x then the x else d)"

text \<open>The bullet U+2022 in UTF-8, and the masking literal of sixteen bullets.\<close>

definition bullet :: jsstring where
  "bullet = [CHR 0xE2, CHR 0x80, CHR 0xA2]"

definition MASK :: jsstring where
  "MASK = concat (replicate 16 bullet)"

subsection \<open>State setters and effects\<close>

definition setIntegrationStatus :: "IntegrationStatus \<Rightarrow> state \<Rightarrow> state" where
  "setIntegrationStatus v st = st\<lparr>integrationStatus := v\<rparr>"

definition setFormData :: "ShopifyConfig \<Rightarrow> state \<Rightarrow> state" where
  "setFormData v st = st\<lparr>formData := v\<rparr>"

definition setLoading :: "bool \<Rightarrow> state \<Rightarrow> state" where
  "setLoading v st = st\<lparr>loading := v\<rparr>"

definition setSaving :: "bool \<Rightarrow> state \<Rightarrow> state" where
  "setSaving v st = st\<lparr>saving := v\<rparr>"

definition setDeleting :: "bool \<Rightarrow> state \<Rightarrow> state" where
  "setDeleting v st = st\<lparr>deleting := v\<rparr>"

definition setError :: "jsstring option \<Rightarrow> state \<Rightarrow> state" where
  "setError v st = st\<lparr>error := v\<rparr>"

definition setSuccess :: "jsstring option \<Rightarrow> state \<Rightarrow> state" where
  "setSuccess v st = st\<lparr>success := v\<rparr>"

text \<open>Issuing a service call appends it to the log.\<close>

definition request :: "call \<Rightarrow> state \<Rightarrow> state" where
  "request c st = st\<lparr>calls := calls st @ [c]\<rparr>"

definition setTimeout :: "callback \<Rightarrow> nat \<Rightarrow> state \<Rightarrow> state" where
  "setTimeout cb ms st = st\<lparr>timers := timers st @ [(cb, ms)]\<rparr>"

section \<open>The handlers\<close>

text \<open>
  \<^verbatim>\<open>fetchIntegrationStatus\<close>: the \<^verbatim>\<open>try\<close> block up to the awaited call, then the branch
  on the response or the \<^verbatim>\<open>catch\<close> block, then the \<^verbatim>\<open>finally\<close> block.
\<close>

definition fetchIntegrationStatus :: "props \<Rightarrow> ShopifyConfigResponse outcome \<Rightarrow> state \<Rightarrow> state" where
  "fetchIntegrationStatus p getOut st0 =
     (let st = setLoading True st0;
          st = setError None st;
          st = request (GetConfig (businessId p)) st;
          st = (case getOut of
                  Inr response \<Rightarrow>
                    if cfg_success response \<and> cfg_data response \<noteq> None then
                      (let d = the (cfg_data response);
                           st = setIntegrationStatus
                                  \<lparr>isIntegrated = True,
                                   status_store_url = Some (data_store_url d),
                                   status_access_token =
                                     (if truthy (data_access_token d) then Some MASK else None),
                                   status_api_version = Some (data_api_version d),
                                   lastUpdated = Some (updated_at d)\<rparr> st
                       in setFormData
                            \<lparr>store_url = data_store_url d, access_token = [],
                             api_version = data_api_version d\<rparr> st)
                    else setIntegrationStatus notIntegrated st
                | Inl err \<Rightarrow>
                    (let st = setError (Some ''Failed to fetch integration status'') st
                     in setIntegrationStatus notIntegrated st))
      in setLoading False st)"

text \<open>The effect on \<^verbatim>\<open>businessId\<close>: a number is truthy when it is not zero.\<close>

definition businessIdEffect :: "props \<Rightarrow> ShopifyConfigResponse outcome \<Rightarrow> state \<Rightarrow> state" where
  "businessIdEffect p getOut st =
     (if businessId p \<noteq> 0 then fetchIntegrationStatus p getOut st else st)"

text \<open>
  \<^verbatim>\<open>handleInputChange\<close> writes one property of the draft. The form calls it with the three
  field names below; another name would add a property that nothing reads.
\<close>

definition handleInputChange :: "jsstring \<Rightarrow> jsstring \<Rightarrow> state \<Rightarrow> state" where
  "handleInputChange field v st =
     setFormData
       (if field = ''store_url'' then (formData st)\<lparr>store_url := v\<rparr>
        else if field = ''access_token'' then (formData st)\<lparr>access_token := v\<rparr>
        else if field = ''api_version'' then (formData st)\<lparr>api_version := v\<rparr>
        else formData st) st"

text \<open>
  \<^verbatim>\<open>handleSaveConfig\<close>. \<open>saveOut\<close> is the settled result of \<^verbatim>\<open>saveConfig\<close>, \<open>getOut\<close> that
  of the \<^verbatim>\<open>getConfig\<close> call made by the nested status fetch, read only when that fetch runs.
\<close>

definition handleSaveConfig ::
  "props \<Rightarrow> ShopifyConfigResponse outcome \<Rightarrow> ShopifyConfigResponse outcome \<Rightarrow> state \<Rightarrow> state" where
  "handleSaveConfig p saveOut getOut st0 =
     (let st = setSaving True st0;
          st = setError None st;
          st = setSuccess None st;
          st = request (SaveConfig (businessId p) (formData st0)) st;
          st = (case saveOut of
                  Inr response \<Rightarrow>
                    if cfg_success response then
                      (let st = setSuccess (Some ''Shopify configuration saved successfully!'') st;
                           st = fetchIntegrationStatus p getOut st
                       in (case onSuccess p of
                             Some cb \<Rightarrow> setTimeout cb 1500 st
                           | None \<Rightarrow> st))
                    else setError (Some (js_or (cfg_error response) ''Failed to save configuration'')) st
                | Inl err \<Rightarrow> setError (Some ''An unexpected error occurred'') st)
      in setSaving False st)"

text \<open>
  \<^verbatim>\<open>handleDeleteConfig\<close>. \<open>confirmed\<close> is the answer of \<^verbatim>\<open>window.confirm\<close>; the early
  return comes before the \<^verbatim>\<open>try\<close>, so no \<^verbatim>\<open>finally\<close> block runs on it.
\<close>

definition handleDeleteConfig :: "props \<Rightarrow> bool \<Rightarrow> DeleteResponse outcome \<Rightarrow> state \<Rightarrow> state" where
  "handleDeleteConfig p confirmed delOut st0 =
     (if \<not> confirmed then st0
      else
        (let st = setDeleting True st0;
             st = setError None st;
             st = setSuccess None st;
             st = request (DeleteConfig (businessId p)) st;
             st = (case delOut of
                     Inr response \<Rightarrow>
                       if del_success response then
                         (let st = setSuccess (Some ''Shopify disconnected successfully!'') st;
                              st = setIntegrationStatus notIntegrated st;
                              st = setFormData
                                     \<lparr>store_url = [], access_token = [], api_version = ''2024-01''\<rparr> st
                          in (case onSuccess p of
                                Some cb \<Rightarrow> setTimeout cb 1500 st
                              | None \<Rightarrow> st))
                       else setError (Some (js_or (del_error response) ''Failed to disconnect'')) st
                   | Inl err \<Rightarrow> setError (Some ''An unexpected error occurred'') st)
         in setDeleting False st))"

text \<open>\<^verbatim>\<open>handleTestConnection\<close>.\<close>

definition handleTestConnection :: "props \<Rightarrow> TestResponse outcome \<Rightarrow> state \<Rightarrow> state" where
  "handleTestConnection p testOut st0 =
     (let st = setLoading True st0;
          st = setError None st;
          st = setSuccess None st;
          st = request (TestConnection (businessId p)) st;
          st = (case testOut of
                  Inr response \<Rightarrow>
                    if test_success response then
                      setSuccess (Some (js_or (test_message response) ''Connection successful!'')) st
                    else setError (Some (js_or (test_error response) ''Connection test failed'')) st
                | Inl err \<Rightarrow> setError (Some ''Connection test failed'') st)
      in setLoading False st)"

section \<open>Runs of the controller\<close>

text \<open>
  What can happen to a mounted form: the effect on \<^verbatim>\<open>businessId\<close> runs (at mount and
  whenever the prop changes), the user edits a field, or clicks one of the three buttons.
  Each event carries the answers of the outside world that its handler reads. In these runs
  a handler ends before the next one starts; runs in which handlers overlap are those of
  the section on split handlers.
\<close>

datatype event =
    EffectRun "ShopifyConfigResponse outcome"
  | InputChange jsstring jsstring
  | SaveClick "ShopifyConfigResponse outcome" "ShopifyConfigResponse outcome"
  | DeleteClick bool "DeleteResponse outcome"
  | TestClick "TestResponse outcome"

fun step :: "props \<Rightarrow> event \<Rightarrow> state \<Rightarrow> state" where
  "step p (EffectRun getOut) st = businessIdEffect p getOut st"
| "step p (InputChange field v) st = handleInputChange field v st"
| "step p (SaveClick saveOut getOut) st = handleSaveConfig p saveOut getOut st"
| "step p (DeleteClick confirmed delOut) st = handleDeleteConfig p confirmed delOut st"
| "step p (TestClick testOut) st = handleTestConnection p testOut st"

fun run :: "props \<Rightarrow> event list \<Rightarrow> state \<Rightarrow> state" where
  "run p [] st = st"
| "run p (e # es) st = run p es (step p e st)"

text \<open>The form is idle when no operation is in flight.\<close>

definition idle :: "state \<Rightarrow> bool" where
  "idle st = (\<not> loading st \<and> \<not> saving st \<and> \<not> deleting st)"

text \<open>Both message slots hold a message.\<close>

definition bothMessages :: "state \<Rightarrow> bool" where
  "bothMessages st = (error st \<noteq> None \<and> success st \<noteq> None)"

section \<open>Handlers split at their awaits\<close>

text \<open>
  \<^verbatim>\<open>fetchIntegrationStatus\<close> in two parts: the writes before
  \<^verbatim>\<open>await ShopifyService.getConfig\<close>, and the writes once the call has settled.
\<close>

definition fetchBegin :: "props \<Rightarrow> state \<Rightarrow> state" where
  "fetchBegin p st0 =
     (let st = setLoading True st0;
          st = setError None st
      in request (GetConfig (businessId p)) st)"

definition fetchSettle :: "ShopifyConfigResponse outcome \<Rightarrow> state \<Rightarrow> state" where
  "fetchSettle getOut st =
     (let st = (case getOut of
                  Inr response \<Rightarrow>
                    if cfg_success response \<and> cfg_data response \<noteq> None then
                      (let d = the (cfg_data response);
                           st = setIntegrationStatus
                                  \<lparr>isIntegrated = True,
                                   status_store_url = Some (data_store_url d),
                                   status_access_token =
                                     (if truthy (data_access_token d) then Some MASK else None),
                                   status_api_version = Some (data_api_version d),
                                   lastUpdated = Some (updated_at d)\<rparr> st
                       in setFormData
                            \<lparr>store_url = data_store_url d, access_token = [],
                             api_version = data_api_version d\<rparr> st)
                    else setIntegrationStatus notIntegrated st
                | Inl err \<Rightarrow>
                    (let st = setError (Some ''Failed to fetch integration status'') st
                     in setIntegrationStatus notIntegrated st))
      in setLoading False st)"

text \<open>
  \<^verbatim>\<open>handleSaveConfig\<close> in three parts: up to the awaited \<^verbatim>\<open>saveConfig\<close>; from its
  result up to the awaited \<^verbatim>\<open>getConfig\<close> of the nested status fetch (or to the end, when
  the save did not succeed); and from the result of that fetch to the \<^verbatim>\<open>finally\<close> block.
  The draft sent is the one of the render in which the button was clicked.
\<close>

definition saveBegin :: "props \<Rightarrow> state \<Rightarrow> state" where
  "saveBegin p st0 =
     (let st = setSaving True st0;
          st = setError None st;
          st = setSuccess None st
      in request (SaveConfig (businessId p) (formData st0)) st)"

definition saveAwaitsFetch :: "ShopifyConfigResponse outcome \<Rightarrow> bool" where
  "saveAwaitsFetch saveOut =
     (case saveOut of Inr response \<Rightarrow> cfg_success response | Inl err \<Rightarrow> False)"

definition saveSettle :: "props \<Rightarrow> ShopifyConfigResponse outcome \<Rightarrow> state \<Rightarrow> state" where
  "saveSettle p saveOut st =
     (case saveOut of
        Inr response \<Rightarrow>
          if cfg_success response then
            fetchBegin p (setSuccess (Some ''Shopify configuration saved successfully!'') st)
          else
            setSaving False
              (setError (Some (js_or (cfg_error response) ''Failed to save configuration'')) st)
      | Inl err \<Rightarrow> setSaving False (setError (Some ''An unexpected error occurred'') st))"

definition saveFetchSettle :: "props \<Rightarrow> ShopifyConfigResponse outcome \<Rightarrow> state \<Rightarrow> state" where
  "saveFetchSettle p getOut st0 =
     (let st = fetchSettle getOut st0;
          st = (case onSuccess p of
                  Some cb \<Rightarrow> setTimeout cb 1500 st
                | None \<Rightarrow> st)
      in setSaving False st)"

text \<open>\<^verbatim>\<open>handleDeleteConfig\<close> after a confirmed dialog, and \<^verbatim>\<open>handleTestConnection\<close>,
  each in two parts.\<close>

definition deleteBegin :: "props \<Rightarrow> state \<Rightarrow> state" where
  "deleteBegin p st0 =
     (let st = setDeleting True st0;
          st = setError None st;
          st = setSuccess None st
      in request (DeleteConfig (businessId p)) st)"

definition deleteSettle :: "props \<Rightarrow> DeleteResponse outcome \<Rightarrow> state \<Rightarrow> state" where
  "deleteSettle p delOut st0 =
     (let st = (case delOut of
                  Inr response \<Rightarrow>
                    if del_success response then
                      (let st = setSuccess (Some ''Shopify disconnected successfully!'') st0;
                           st = setIntegrationStatus notIntegrated st;
                           st = setFormData
                                  \<lparr>store_url = [], access_token = [], api_version = ''2024-01''\<rparr> st
                       in (case onSuccess p of
                             Some cb \<Rightarrow> setTimeout cb 1500 st
                           | None \<Rightarrow> st))
                    else setError (Some (js_or (del_error response) ''Failed to disconnect'')) st0
                | Inl err \<Rightarrow> setError (Some ''An unexpected error occurred'') st0)
      in setDeleting False st)"

definition testBegin :: "props \<Rightarrow> state \<Rightarrow> state" where
  "testBegin p st0 =
     (let st = setLoading True st0;
          st = setError None st;
          st = setSuccess None st
      in request (TestConnection (businessId p)) st)"

definition testSettle :: "TestResponse outcome \<Rightarrow> state \<Rightarrow> state" where
  "testSettle testOut st0 =
     (let st = (case testOut of
                  Inr response \<Rightarrow>
                    if test_success response then
                      setSuccess (Some (js_or (test_message response) ''Connection successful!'')) st0
                    else setError (Some (js_or (test_error response) ''Connection test failed'')) st0
                | Inl err \<Rightarrow> setError (Some ''Connection test failed'') st0)
      in setLoading False st)"

text \<open>
  What the rendered form lets the user do: the inputs and the buttons carry
  \<^verbatim>\<open>disabled\<close> attributes, and the test and disconnect buttons are rendered only for an
  integrated business.
\<close>

definition inputEnabled :: "state \<Rightarrow> bool" where
  "inputEnabled st = (\<not> (loading st \<or> saving st))"

definition saveEnabled :: "state \<Rightarrow> bool" where
  "saveEnabled st = (\<not> (saving st \<or> loading st))"

definition testEnabled :: "state \<Rightarrow> bool" where
  "testEnabled st = (isIntegrated (integrationStatus st) \<and> \<not> loading st)"

definition deleteEnabled :: "state \<Rightarrow> bool" where
  "deleteEnabled st = (isIntegrated (integrationStatus st) \<and> \<not> (deleting st \<or> loading st))"

text \<open>
  A world is the state of the form together with the calls that are awaiting their result.
  A save is \<open>PSave\<close> while it awaits \<^verbatim>\<open>saveConfig\<close> and \<open>PSaveFetch\<close> while it awaits
  the nested \<^verbatim>\<open>getConfig\<close>; \<open>PFetch\<close> is a status fetch started by the effect.
\<close>

datatype pending = PFetch | PSave | PSaveFetch | PDelete | PTest

record world =
  ui :: state
  inflight :: "pending list"

definition initialWorld :: world where
  "initialWorld = \<lparr>ui = initialState, inflight = []\<rparr>"

text \<open>
  The phases of a run: a handler starts (the effect runs, a button that is enabled is
  clicked, an enabled input is edited) or an awaited call settles with its outcome.
\<close>

datatype phase =
    EffectBegin
  | FetchSettle "ShopifyConfigResponse outcome"
  | Edit jsstring jsstring
  | SaveBegin
  | SaveSettle "ShopifyConfigResponse outcome"
  | SaveFetchSettle "ShopifyConfigResponse outcome"
  | DeleteBegin bool
  | DeleteSettle "DeleteResponse outcome"
  | TestBegin
  | TestSettle "TestResponse outcome"

text \<open>
  A call can settle only when it is in flight; \<open>next\<close> holds the call its handler awaits
  after it. A click on a disabled or absent control, and the result of a call that was
  never made, are not phases of any run: the step is \<open>None\<close>.
\<close>

definition settle :: "pending \<Rightarrow> pending list \<Rightarrow> state \<Rightarrow> world \<Rightarrow> world option" where
  "settle op next st w =
     (if op \<in> set (inflight w)
      then Some \<lparr>ui = st, inflight = remove1 op (inflight w) @ next\<rparr>
      else None)"

fun phaseStep :: "props \<Rightarrow> phase \<Rightarrow> world \<Rightarrow> world option" where
  "phaseStep p EffectBegin w =
     (if businessId p \<noteq> 0
      then Some \<lparr>ui = fetchBegin p (ui w), inflight = inflight w @ [PFetch]\<rparr>
      else Some w)"
| "phaseStep p (FetchSettle getOut) w = settle PFetch [] (fetchSettle getOut (ui w)) w"
| "phaseStep p (Edit field v) w =
     (if inputEnabled (ui w)
      then Some \<lparr>ui = handleInputChange field v (ui w), inflight = inflight w\<rparr>
      else None)"
| "phaseStep p SaveBegin w =
     (if saveEnabled (ui w)
      then Some \<lparr>ui = saveBegin p (ui w), inflight = inflight w @ [PSave]\<rparr>
      else None)"
| "phaseStep p (SaveSettle saveOut) w =
     settle PSave (if saveAwaitsFetch saveOut then [PSaveFetch] else [])
       (saveSettle p saveOut (ui w)) w"
| "phaseStep p (SaveFetchSettle getOut) w =
     settle PSaveFetch [] (saveFetchSettle p getOut (ui w)) w"
| "phaseStep p (DeleteBegin confirmed) w =
     (if deleteEnabled (ui w)
      then (if \<not> confirmed then Some w
            else Some \<lparr>ui = deleteBegin p (ui w), inflight = inflight w @ [PDelete]\<rparr>)
      else None)"
| "phaseStep p (DeleteSettle delOut) w = settle PDelete [] (deleteSettle p delOut (ui w)) w"
| "phaseStep p TestBegin w =
     (if testEnabled (ui w)
      then Some \<lparr>ui = testBegin p (ui w), inflight = inflight w @ [PTest]\<rparr>
      else None)"
| "phaseStep p (TestSettle testOut) w = settle PTest [] (testSettle testOut (ui w)) w"

fun phaseRun :: "props \<Rightarrow> phase list \<Rightarrow> world \<Rightarrow> world option" where
  "phaseRun p [] w = Some w"
| "phaseRun p (e # es) w =
     (case phaseStep p e w of None \<Rightarrow> None | Some w' \<Rightarrow> phaseRun p es w')"

text \<open>
  The calls made by the three buttons. A phase disturbs a run when it is a rejected
  \<^verbatim>\<open>getConfig\<close> call, or when a save, a confirmed delete or a test starts while a call of
  one of the three buttons is still in flight. A run is calm when it can happen and none of
  its phases disturbs it.
\<close>

fun userOp :: "pending \<Rightarrow> bool" where
  "userOp PFetch = False"
| "userOp op = True"

fun disturbs :: "phase \<Rightarrow> world \<Rightarrow> bool" where
  "disturbs (FetchSettle getOut) w = isl getOut"
| "disturbs (SaveFetchSettle getOut) w = isl getOut"
| "disturbs SaveBegin w = (filter userOp (inflight w) \<noteq> [])"
| "disturbs (DeleteBegin confirmed) w = (confirmed \<and> filter userOp (inflight w) \<noteq> [])"
| "disturbs TestBegin w = (filter userOp (inflight w) \<noteq> [])"
| "disturbs ev w = False"

fun calm :: "props \<Rightarrow> phase list \<Rightarrow> world \<Rightarrow> bool" where
  "calm p [] w = True"
| "calm p (e # es) w =
     (\<not> disturbs e w \<and>
      (case phaseStep p e w of None \<Rightarrow> False | Some w' \<Rightarrow> calm p es w'))"

text \<open>The two message slots of a world.\<close>

definition slots :: "world \<Rightarrow> jsstring option \<times> jsstring option" where
  "slots w = (error (ui w), success (ui w))"

text \<open>
  The condition under which the two slots are shown to exclude each other: at most one call
  of the three buttons is in flight; while one is, the error slot is empty; and while a
  save awaits \<^verbatim>\<open>saveConfig\<close>, or a delete or a test awaits its call, the success slot is
  empty too.
\<close>

definition quiet :: "world \<Rightarrow> bool" where
  "quiet w =
     (length (filter userOp (inflight w)) \<le> 1 \<and>
      \<not> bothMessages (ui w) \<and>
      (filter userOp (inflight w) \<noteq> [] \<longrightarrow> error (ui w) = None) \<and>
      (PSave \<in> set (inflight w) \<or> PDelete \<in> set (inflight w) \<or> PTest \<in> set (inflight w)
         \<longrightarrow> success (ui w) = None))"

section \<open>Sample inputs\<close>

text \<open>Concrete props, responses and a rejection, used where a property is evaluated.\<close>

definition demoProps :: props where
  "demoProps = \<lparr>businessId = 7, onSuccess = Some ''onSuccess'', onCancel = None\<rparr>"

definition noConfig :: ShopifyConfigResponse where
  "noConfig = \<lparr>cfg_success = False, cfg_data = None, cfg_error = None\<rparr>"

definition demoData :: ConfigData where
  "demoData =
     \<lparr>data_id = 1, business_id = 7, data_store_url = ''a.myshopify.com'',
      data_access_token = Some ''shpat_x'', data_api_version = ''2024-01'', is_active = True,
      created_at = ''2024-05-01T10:00:00Z'', updated_at = ''2024-05-02T11:30:00Z''\<rparr>"

definition configPresent :: ShopifyConfigResponse where
  "configPresent = \<lparr>cfg_success = True, cfg_data = Some demoData, cfg_error = None\<rparr>"

definition savedOk :: ShopifyConfigResponse where
  "savedOk = \<lparr>cfg_success = True, cfg_data = None, cfg_error = None\<rparr>"

definition deletedOk :: DeleteResponse where
  "deletedOk = \<lparr>del_success = True, del_error = None\<rparr>"

definition netFault :: "'a outcome" where
  "netFault = Inl (TransportFault ''Network Error'')"

section \<open>Basic facts about the handlers\<close>

lemmas setter_defs =
  setIntegrationStatus_def setFormData_def setLoading_def setSaving_def setDeleting_def
  setError_def setSuccess_def request_def setTimeout_def

lemmas handler_defs =
  fetchIntegrationStatus_def businessIdEffect_def handleInputChange_def handleSaveConfig_def
  handleDeleteConfig_def handleTestConnection_def

lemmas phase_defs =
  fetchBegin_def fetchSettle_def saveBegin_def saveSettle_def saveFetchSettle_def
  deleteBegin_def deleteSettle_def testBegin_def testSettle_def saveAwaitsFetch_def

lemmas world_defs =
  settle_def initialWorld_def slots_def inputEnabled_def saveEnabled_def testEnabled_def
  deleteEnabled_def

lemmas demo_defs =
  demoProps_def noConfig_def demoData_def configPresent_def savedOk_def deletedOk_def
  netFault_def

text \<open>A status fetch never writes the success slot, and its error slot depends on the
  outcome of the call alone.\<close>

lemma fetch_success: "success (fetchIntegrationStatus p g st) = success st"
  by (simp add: fetchIntegrationStatus_def setter_defs Let_def split: sum.splits)

lemma fetch_error:
  "error (fetchIntegrationStatus p g st)
     = (if isl g then Some ''Failed to fetch integration status'' else None)"
  by (simp add: fetchIntegrationStatus_def setter_defs Let_def split: sum.splits)

lemma step_idle: "idle st \<Longrightarrow> idle (step p ev st)"
  by (cases ev)
     (auto simp: idle_def handler_defs setter_defs Let_def split: sum.splits option.splits)

lemma run_idle: "idle st \<Longrightarrow> idle (run p evs st)"
  by (induction evs arbitrary: st) (simp_all add: step_idle)

section \<open>Facts about the split handlers\<close>

text \<open>Started and settled with nothing in between, the parts make up the handler.\<close>

lemma fetch_phases: "fetchSettle g (fetchBegin p st) = fetchIntegrationStatus p g st"
  by (simp add: phase_defs handler_defs Let_def)

lemma save_phases:
  "handleSaveConfig p s g st =
     (if saveAwaitsFetch s then saveFetchSettle p g (saveSettle p s (saveBegin p st))
      else saveSettle p s (saveBegin p st))"
  by (simp add: handleSaveConfig_def saveFetchSettle_def saveSettle_def saveBegin_def
           saveAwaitsFetch_def fetch_phases Let_def split: sum.splits option.splits)

lemma delete_phases: "deleteSettle p d (deleteBegin p st) = handleDeleteConfig p True d st"
  by (simp add: phase_defs handler_defs Let_def)

lemma test_phases: "testSettle t (testBegin p st) = handleTestConnection p t st"
  by (simp add: phase_defs handler_defs Let_def)

lemma one_user_op:
  "length (filter userOp xs) \<le> 1 \<Longrightarrow> op \<in> set xs \<Longrightarrow> userOp op \<Longrightarrow>
   filter userOp (remove1 op xs) = [] \<and> (\<forall>y \<in> set xs. userOp y \<longrightarrow> y = op)"
proof (induction xs)
  case Nil
  then show ?case by simp
next
  case (Cons x xs)
  show ?case
  proof (cases "userOp x")
    case True
    with Cons.prems have e: "filter userOp xs = []" by simp
    then have "\<forall>y\<in>set xs. \<not> userOp y" by (simp add: filter_empty_conv)
    with Cons.prems True e show ?thesis by auto
  next
    case False
    with Cons show ?thesis by auto
  qed
qed

text \<open>What each part writes to the two message slots.\<close>

lemma fetchBegin_slots:
  "error (fetchBegin p st) = None" "success (fetchBegin p st) = success st"
  by (simp_all add: fetchBegin_def setter_defs Let_def)

lemma saveBegin_slots:
  "error (saveBegin p st) = None" "success (saveBegin p st) = None"
  by (simp_all add: saveBegin_def setter_defs Let_def)

lemma deleteBegin_slots:
  "error (deleteBegin p st) = None" "success (deleteBegin p st) = None"
  by (simp_all add: deleteBegin_def setter_defs Let_def)

lemma testBegin_slots:
  "error (testBegin p st) = None" "success (testBegin p st) = None"
  by (simp_all add: testBegin_def setter_defs Let_def)

lemma handleInputChange_slots:
  "error (handleInputChange f v st) = error st" "success (handleInputChange f v st) = success st"
  by (simp_all add: handleInputChange_def setter_defs)

lemma fetchSettle_success: "success (fetchSettle g st) = success st"
  by (simp add: fetchSettle_def setter_defs Let_def split: sum.splits)

lemma fetchSettle_error: "error (fetchSettle (Inr r) st) = error st"
  by (simp add: fetchSettle_def setter_defs Let_def)

lemma saveFetchSettle_success: "success (saveFetchSettle p g st) = success st"
  by (simp add: saveFetchSettle_def fetchSettle_success setter_defs Let_def split: option.splits)

lemma saveFetchSettle_error: "error (saveFetchSettle p (Inr r) st) = error st"
  by (simp add: saveFetchSettle_def fetchSettle_error setter_defs Let_def split: option.splits)

lemma deleteSettle_one:
  "error st = None \<Longrightarrow> success st = None \<Longrightarrow> \<not> bothMessages (deleteSettle p d st)"
  by (simp add: bothMessages_def deleteSettle_def setter_defs Let_def
           split: sum.splits option.splits)

lemma testSettle_one:
  "error st = None \<Longrightarrow> success st = None \<Longrightarrow> \<not> bothMessages (testSettle t st)"
  by (simp add: bothMessages_def testSettle_def setter_defs Let_def split: sum.splits)

lemma saveSettle_one:
  "error st = None \<Longrightarrow> success st = None \<Longrightarrow>
   \<not> bothMessages (saveSettle p s st) \<and>
   (saveAwaitsFetch s \<longrightarrow> error (saveSettle p s st) = None)"
  by (simp add: bothMessages_def saveSettle_def saveAwaitsFetch_def fetchBegin_def setter_defs
           Let_def split: sum.splits)

text \<open>The condition \<open>quiet\<close> holds initially and is kept by every phase that does not
  disturb the run.\<close>

lemma pending_user:
  "op \<in> set (inflight w) \<Longrightarrow> userOp op \<Longrightarrow> filter userOp (inflight w) \<noteq> []"
  by (auto simp: filter_empty_conv)

lemma begin_quiet:
  assumes q: "quiet w" and n: "filter userOp (inflight w) = []"
    and e: "error st = None" and c: "success st = None"
  shows "quiet \<lparr>ui = st, inflight = inflight w @ [op]\<rparr>"
  using q n e c by (simp add: quiet_def bothMessages_def filter_empty_conv)

lemma effect_quiet:
  assumes q: "quiet w" and e: "error st = None" and c: "success st = success (ui w)"
  shows "quiet \<lparr>ui = st, inflight = inflight w @ [PFetch]\<rparr>"
  using q e c by (simp add: quiet_def bothMessages_def)

lemma edit_quiet:
  assumes q: "quiet w" and e: "error st = error (ui w)" and c: "success st = success (ui w)"
  shows "quiet \<lparr>ui = st, inflight = inflight w\<rparr>"
  using q e c by (simp add: quiet_def bothMessages_def)

lemma settle_quiet:
  assumes q: "quiet w" and u: "userOp op"
    and s: "settle op next st w = Some w'"
    and nx: "next = [] \<or> next = [PSaveFetch]"
    and b: "\<not> bothMessages st"
    and e: "next \<noteq> [] \<longrightarrow> error st = None"
  shows "quiet w'"
proof -
  from s have m: "op \<in> set (inflight w)"
    and w': "w' = \<lparr>ui = st, inflight = remove1 op (inflight w) @ next\<rparr>"
    by (auto simp: settle_def split: if_splits)
  from q have l: "length (filter userOp (inflight w)) \<le> 1"
    by (simp add: quiet_def)
  from one_user_op [OF l m u]
  have r: "filter userOp (remove1 op (inflight w)) = []"
    by simp
  then have none: "\<forall>x\<in>set (remove1 op (inflight w)). \<not> userOp x"
    by (simp add: filter_empty_conv)
  have a: "PSave \<notin> set (remove1 op (inflight w))"
    using none by fastforce
  have d: "PDelete \<notin> set (remove1 op (inflight w))"
    using none by fastforce
  have t: "PTest \<notin> set (remove1 op (inflight w))"
    using none by fastforce
  from nx show ?thesis
  proof
    assume "next = []"
    with w' r b a d t show ?thesis by (simp add: quiet_def)
  next
    assume "next = [PSaveFetch]"
    with w' r b e a d t show ?thesis by (simp add: quiet_def)
  qed
qed

lemma fetch_settle_quiet:
  assumes q: "quiet w" and s: "settle PFetch [] st w = Some w'"
    and e: "error st = error (ui w)" and c: "success st = success (ui w)"
  shows "quiet w'"
proof -
  from s have w': "w' = \<lparr>ui = st, inflight = remove1 PFetch (inflight w)\<rparr>"
    by (auto simp: settle_def split: if_splits)
  have f: "filter userOp (remove1 PFetch (inflight w)) = filter userOp (inflight w)"
    by (simp add: filter_remove1 remove1_idem)
  have m: "x \<noteq> PFetch \<Longrightarrow> x \<in> set (remove1 PFetch (inflight w)) \<longleftrightarrow> x \<in> set (inflight w)"
    for x by simp
  from q w' f e c show ?thesis
    by (simp add: quiet_def bothMessages_def m)
qed

lemma phaseStep_quiet:
  assumes q: "quiet w" and nd: "\<not> disturbs ev w" and s: "phaseStep p ev w = Some w'"
  shows "quiet w'"
proof (cases ev)
  case EffectBegin
  show ?thesis
  proof (cases "businessId p = 0")
    case True
    with EffectBegin s q show ?thesis by simp
  next
    case False
    with EffectBegin s
    have "w' = \<lparr>ui = fetchBegin p (ui w), inflight = inflight w @ [PFetch]\<rparr>" by simp
    then show ?thesis
      using effect_quiet [OF q fetchBegin_slots] by simp
  qed
next
  case (FetchSettle getOut)
  with nd obtain r where "getOut = Inr r" by (cases getOut) auto
  with FetchSettle s have "settle PFetch [] (fetchSettle (Inr r) (ui w)) w = Some w'"
    by simp
  from fetch_settle_quiet [OF q this fetchSettle_error fetchSettle_success]
  show ?thesis .
next
  case (Edit field v)
  with s have "w' = \<lparr>ui = handleInputChange field v (ui w), inflight = inflight w\<rparr>"
    by (simp split: if_splits)
  then show ?thesis
    using edit_quiet [OF q handleInputChange_slots] by simp
next
  case SaveBegin
  with nd have n: "filter userOp (inflight w) = []" by simp
  from SaveBegin s have "w' = \<lparr>ui = saveBegin p (ui w), inflight = inflight w @ [PSave]\<rparr>"
    by (simp split: if_splits)
  then show ?thesis
    using begin_quiet [OF q n saveBegin_slots] by simp
next
  case (SaveSettle saveOut)
  with s have st: "settle PSave (if saveAwaitsFetch saveOut then [PSaveFetch] else [])
                     (saveSettle p saveOut (ui w)) w = Some w'"
    by simp
  then have m: "PSave \<in> set (inflight w)"
    by (simp add: settle_def split: if_splits)
  from q m pending_user [OF m] have e: "error (ui w) = None" and c: "success (ui w) = None"
    by (simp_all add: quiet_def)
  from saveSettle_one [OF e c, of p saveOut] show ?thesis
    by (intro settle_quiet [OF q _ st]) simp_all
next
  case (SaveFetchSettle getOut)
  with nd obtain r where g: "getOut = Inr r" by (cases getOut) auto
  with SaveFetchSettle s
  have st: "settle PSaveFetch [] (saveFetchSettle p (Inr r) (ui w)) w = Some w'"
    by simp
  then have m: "PSaveFetch \<in> set (inflight w)"
    by (simp add: settle_def split: if_splits)
  from q pending_user [OF m] have e: "error (ui w) = None"
    by (simp add: quiet_def)
  show ?thesis
    by (intro settle_quiet [OF q _ st])
       (simp_all add: bothMessages_def saveFetchSettle_error e)
next
  case (DeleteBegin confirmed)
  show ?thesis
  proof (cases confirmed)
    case False
    with DeleteBegin s q show ?thesis by (simp split: if_splits)
  next
    case True
    with DeleteBegin nd have n: "filter userOp (inflight w) = []" by simp
    from True DeleteBegin s
    have "w' = \<lparr>ui = deleteBegin p (ui w), inflight = inflight w @ [PDelete]\<rparr>"
      by (simp split: if_splits)
    then show ?thesis
      using begin_quiet [OF q n deleteBegin_slots] by simp
  qed
next
  case (DeleteSettle delOut)
  with s have st: "settle PDelete [] (deleteSettle p delOut (ui w)) w = Some w'"
    by simp
  then have m: "PDelete \<in> set (inflight w)"
    by (simp add: settle_def split: if_splits)
  from q m pending_user [OF m] have e: "error (ui w) = None" and c: "success (ui w) = None"
    by (simp_all add: quiet_def)
  from deleteSettle_one [OF e c, of p delOut] show ?thesis
    by (intro settle_quiet [OF q _ st]) simp_all
next
  case TestBegin
  with nd have n: "filter userOp (inflight w) = []" by simp
  from TestBegin s have "w' = \<lparr>ui = testBegin p (ui w), inflight = inflight w @ [PTest]\<rparr>"
    by (simp split: if_splits)
  then show ?thesis
    using begin_quiet [OF q n testBegin_slots] by simp
next
  case (TestSettle testOut)
  with s have st: "settle PTest [] (testSettle testOut (ui w)) w = Some w'"
    by simp
  then have m: "PTest \<in> set (inflight w)"
    by (simp add: settle_def split: if_splits)
  from q m pending_user [OF m] have e: "error (ui w) = None" and c: "success (ui w) = None"
    by (simp_all add: quiet_def)
  from testSettle_one [OF e c, of testOut] show ?thesis
    by (intro settle_quiet [OF q _ st]) simp_all
qed

lemma calm_quiet:
  "quiet w \<Longrightarrow> calm p evs w \<Longrightarrow> \<exists>w'. phaseRun p evs w = Some w' \<and> quiet w'"
proof (induction evs arbitrary: w)
  case Nil
  then show ?case by simp
next
  case (Cons e es)
  from Cons.prems(2) obtain w1 where s: "phaseStep p e w = Some w1"
    and nd: "\<not> disturbs e w" and c: "calm p es w1"
    by (auto split: option.splits)
  from phaseStep_quiet [OF Cons.prems(1) nd s] have "quiet w1" .
  from Cons.IH [OF this c] s show ?case by simp
qed

lemma initial_quiet: "quiet initialWorld"
  by (simp add: quiet_def initialWorld_def initialState_def bothMessages_def)

section \<open>Properties\<close>

subsection \<open>C1: the two message slots\<close>

text \<open>
  C1, as stated, fails, in two ways. First, the user loads the form for a business without
  a configuration, fills in the store and the token and saves. The save succeeds, so the
  success message is set; the status fetch that follows is rejected, so it sets the error
  message. The fetch never writes the success slot, and both messages are shown. Second,
  the test button is disabled by \<^verbatim>\<open>loading\<close> alone, so it can be clicked while a
  disconnect is awaiting its answer: both handlers clear the slots when they start, then the
  delete fails and sets the error, the test succeeds and sets the success message, and the
  form is idle with both messages shown, with no rejected call at all.
\<close>

theorem both_messages_after_failed_refetch_or_overlap:
  "error (run demoProps
      [EffectRun (Inr noConfig),
       InputChange ''store_url'' ''a.myshopify.com'',
       InputChange ''access_token'' ''shpat_x'',
       SaveClick (Inr savedOk) netFault] initialState)
     = Some ''Failed to fetch integration status'' \<and>
   success (run demoProps
      [EffectRun (Inr noConfig),
       InputChange ''store_url'' ''a.myshopify.com'',
       InputChange ''access_token'' ''shpat_x'',
       SaveClick (Inr savedOk) netFault] initialState)
     = Some ''Shopify configuration saved successfully!'' \<and>
   map_option slots (phaseRun demoProps
      [EffectBegin,
       FetchSettle (Inr configPresent),
       DeleteBegin True,
       TestBegin,
       DeleteSettle (Inr \<lparr>del_success = False, del_error = Some ''not found''\<rparr>),
       TestSettle (Inr \<lparr>test_success = True, test_error = None, test_message = None\<rparr>)]
      initialWorld)
     = Some (Some ''not found'', Some ''Connection successful!'') \<and>
   map_option inflight (phaseRun demoProps
      [EffectBegin,
       FetchSettle (Inr configPresent),
       DeleteBegin True,
       TestBegin,
       DeleteSettle (Inr \<lparr>del_success = False, del_error = Some ''not found''\<rparr>),
       TestSettle (Inr \<lparr>test_success = True, test_error = None, test_message = None\<rparr>)]
      initialWorld)
     = Some []"
  by (simp add: demo_defs handler_defs phase_defs world_defs setter_defs initialState_def
           Let_def js_or_def truthy_def)

text \<open>
  C1, amended. In every state reached from the initial state by a run, overlapping handlers
  included, in which no \<^verbatim>\<open>getConfig\<close> call is rejected and no save, confirmed delete or
  test starts while a call of one of these three is still in flight, the error slot and the
  success slot are not both set. Run from its click to its end with no other handler in
  between, from any state, a test-connection action and a confirmed delete leave at most
  one slot set, and so does a save unless its status fetch is rejected: these handlers
  clear both slots before they set one. A status fetch leaves the success slot as it was.
\<close>

theorem messages_exclusive_when_undisturbed:
  "(calm p evs initialWorld \<longrightarrow>
      (\<exists>w. phaseRun p evs initialWorld = Some w \<and> \<not> bothMessages (ui w))) \<and>
   \<not> bothMessages (handleTestConnection p testOut st) \<and>
   \<not> bothMessages (handleDeleteConfig p True delOut st) \<and>
   (\<not> (saveAwaitsFetch saveOut \<and> isl getOut) \<longrightarrow>
      \<not> bothMessages (handleSaveConfig p saveOut getOut st)) \<and>
   success (fetchIntegrationStatus p getOut st) = success st"
proof -
  have inv: "calm p evs initialWorld \<longrightarrow>
      (\<exists>w. phaseRun p evs initialWorld = Some w \<and> \<not> bothMessages (ui w))"
    using calm_quiet [OF initial_quiet, of p evs] by (auto simp: quiet_def)
  have t: "\<not> bothMessages (handleTestConnection p testOut st)"
    by (simp add: bothMessages_def handleTestConnection_def setter_defs Let_def
             split: sum.splits)
  have d: "\<not> bothMessages (handleDeleteConfig p True delOut st)"
    by (simp add: bothMessages_def handleDeleteConfig_def setter_defs Let_def
             split: sum.splits option.splits)
  have s: "\<not> (saveAwaitsFetch saveOut \<and> isl getOut) \<longrightarrow>
           \<not> bothMessages (handleSaveConfig p saveOut getOut st)"
    by (auto simp: bothMessages_def handleSaveConfig_def saveAwaitsFetch_def setter_defs Let_def
                   fetch_error split: sum.splits option.splits)
  show ?thesis using inv t d s by (simp add: fetch_success)
qed

theorem messages_exclusive_when_undisturbed_witness:
  "calm demoProps
     [EffectBegin,
      FetchSettle (Inr noConfig),
      Edit ''store_url'' ''a.myshopify.com'',
      SaveBegin,
      SaveSettle (Inr savedOk),
      SaveFetchSettle (Inr configPresent),
      DeleteBegin True,
      EffectBegin,
      DeleteSettle (Inr \<lparr>del_success = False, del_error = Some ''not found''\<rparr>),
      FetchSettle (Inr configPresent),
      TestBegin,
      TestSettle (Inr \<lparr>test_success = True, test_error = None, test_message = None\<rparr>)]
     initialWorld \<and>
   map_option slots (phaseRun demoProps
     [EffectBegin,
      FetchSettle (Inr noConfig),
      Edit ''store_url'' ''a.myshopify.com'',
      SaveBegin,
      SaveSettle (Inr savedOk),
      SaveFetchSettle (Inr configPresent),
      DeleteBegin True,
      EffectBegin,
      DeleteSettle (Inr \<lparr>del_success = False, del_error = Some ''not found''\<rparr>),
      FetchSettle (Inr configPresent),
      TestBegin,
      TestSettle (Inr \<lparr>test_success = True, test_error = None, test_message = None\<rparr>)]
     initialWorld)
     = Some (None, Some ''Connection successful!'')"
  using messages_exclusive_when_undisturbed
          [of demoProps
              "[EffectBegin,
                FetchSettle (Inr noConfig),
                Edit ''store_url'' ''a.myshopify.com'',
                SaveBegin,
                SaveSettle (Inr savedOk),
                SaveFetchSettle (Inr configPresent),
                DeleteBegin True,
                EffectBegin,
                DeleteSettle (Inr \<lparr>del_success = False, del_error = Some ''not found''\<rparr>),
                FetchSettle (Inr configPresent),
                TestBegin,
                TestSettle (Inr \<lparr>test_success = True, test_error = None, test_message = None\<rparr>)]"]
  by (simp add: demo_defs handler_defs phase_defs world_defs setter_defs initialState_def
           Let_def js_or_def truthy_def)

subsection \<open>C2: fetching the status again after a mutation\<close>

text \<open>
  C2, as stated, fails for the delete. The form is loaded for a business with a
  configuration and the user confirms the disconnect, which succeeds. The form is idle
  again and the last service call it made is \<^verbatim>\<open>deleteConfig\<close>: no \<^verbatim>\<open>getConfig\<close> call
  follows it.
\<close>

theorem delete_success_issues_no_getConfig:
  "calls (run demoProps
      [EffectRun (Inr configPresent), DeleteClick True (Inr deletedOk)] initialState)
     = [GetConfig 7, DeleteConfig 7] \<and>
   idle (run demoProps
      [EffectRun (Inr configPresent), DeleteClick True (Inr deletedOk)] initialState)"
  by (simp add: demo_defs handler_defs setter_defs initialState_def Let_def idle_def)

text \<open>
  C2, amended. After a save whose response has \<^verbatim>\<open>success: true\<close> the controller issues
  \<^verbatim>\<open>saveConfig\<close> with the draft and then \<^verbatim>\<open>getConfig\<close>, takes the displayed status from
  that fetch, and ends with the saving and loading flags off. After a confirmed delete whose
  response has \<^verbatim>\<open>success: true\<close> it issues \<^verbatim>\<open>deleteConfig\<close> alone and sets the status
  to not integrated itself.
\<close>

theorem refetch_after_save_not_after_delete:
  "(cfg_success r \<longrightarrow>
      calls (handleSaveConfig p (Inr r) getOut st)
        = calls st @ [SaveConfig (businessId p) (formData st), GetConfig (businessId p)] \<and>
      integrationStatus (handleSaveConfig p (Inr r) getOut st)
        = integrationStatus (fetchIntegrationStatus p getOut st) \<and>
      \<not> saving (handleSaveConfig p (Inr r) getOut st) \<and>
      \<not> loading (handleSaveConfig p (Inr r) getOut st)) \<and>
   (del_success dr \<longrightarrow>
      calls (handleDeleteConfig p True (Inr dr) st) = calls st @ [DeleteConfig (businessId p)] \<and>
      integrationStatus (handleDeleteConfig p True (Inr dr) st) = notIntegrated \<and>
      \<not> deleting (handleDeleteConfig p True (Inr dr) st))"
  by (auto simp: handler_defs setter_defs Let_def split: sum.splits option.splits)

theorem refetch_after_save_not_after_delete_witness:
  "cfg_success savedOk \<and>
   calls (handleSaveConfig demoProps (Inr savedOk) (Inr configPresent) initialState)
     = [SaveConfig 7 defaultFormData, GetConfig 7] \<and>
   del_success deletedOk \<and>
   calls (handleDeleteConfig demoProps True (Inr deletedOk) initialState) = [DeleteConfig 7]"
  using refetch_after_save_not_after_delete
          [of savedOk demoProps "Inr configPresent" initialState deletedOk]
  by (simp add: demo_defs initialState_def)

subsection \<open>C3: the outcomes of a confirmed delete\<close>

text \<open>
  C3. A confirmed delete whose response has \<^verbatim>\<open>success: true\<close> sets the status to not
  integrated, resets the draft to the empty store, the empty token and version 2024-01, sets
  the success message and, when \<^verbatim>\<open>onSuccess\<close> was supplied, adds exactly one timer for it
  with a delay of 1500 ms (none otherwise). A response with \<^verbatim>\<open>success: false\<close> and a
  rejected call each set a non-empty error, set no timer and leave the displayed status as
  it was.
\<close>

theorem confirmed_delete_outcomes:
  "(del_success r \<longrightarrow>
      integrationStatus (handleDeleteConfig p True (Inr r) st) = notIntegrated \<and>
      formData (handleDeleteConfig p True (Inr r) st)
        = \<lparr>store_url = [], access_token = [], api_version = ''2024-01''\<rparr> \<and>
      success (handleDeleteConfig p True (Inr r) st) = Some ''Shopify disconnected successfully!'' \<and>
      error (handleDeleteConfig p True (Inr r) st) = None \<and>
      timers (handleDeleteConfig p True (Inr r) st)
        = timers st @ (case onSuccess p of Some cb \<Rightarrow> [(cb, 1500)] | None \<Rightarrow> [])) \<and>
   (\<not> del_success r \<longrightarrow>
      error (handleDeleteConfig p True (Inr r) st)
        = Some (js_or (del_error r) ''Failed to disconnect'') \<and>
      js_or (del_error r) ''Failed to disconnect'' \<noteq> [] \<and>
      success (handleDeleteConfig p True (Inr r) st) = None \<and>
      integrationStatus (handleDeleteConfig p True (Inr r) st) = integrationStatus st \<and>
      timers (handleDeleteConfig p True (Inr r) st) = timers st) \<and>
   error (handleDeleteConfig p True (Inl f) st) = Some ''An unexpected error occurred'' \<and>
   success (handleDeleteConfig p True (Inl f) st) = None \<and>
   integrationStatus (handleDeleteConfig p True (Inl f) st) = integrationStatus st \<and>
   timers (handleDeleteConfig p True (Inl f) st) = timers st"
  by (simp add: handler_defs setter_defs Let_def js_or_def truthy_def
           split: sum.splits option.splits)

theorem confirmed_delete_outcomes_witness:
  "del_success deletedOk \<and>
   integrationStatus (handleDeleteConfig demoProps True (Inr deletedOk)
      (fetchIntegrationStatus demoProps (Inr configPresent) initialState)) = notIntegrated \<and>
   timers (handleDeleteConfig demoProps True (Inr deletedOk)
      (fetchIntegrationStatus demoProps (Inr configPresent) initialState))
     = [(''onSuccess'', 1500)] \<and>
   \<not> del_success \<lparr>del_success = False, del_error = Some ''not found''\<rparr> \<and>
   error (handleDeleteConfig demoProps True
      (Inr \<lparr>del_success = False, del_error = Some ''not found''\<rparr>)
      (fetchIntegrationStatus demoProps (Inr configPresent) initialState)) = Some ''not found''"
  using confirmed_delete_outcomes
          [of deletedOk demoProps
              "fetchIntegrationStatus demoProps (Inr configPresent) initialState"]
        confirmed_delete_outcomes
          [of "\<lparr>del_success = False, del_error = Some ''not found''\<rparr>" demoProps
              "fetchIntegrationStatus demoProps (Inr configPresent) initialState"]
  by (simp add: demo_defs js_or_def truthy_def fetchIntegrationStatus_def setter_defs
           initialState_def Let_def)

subsection \<open>C4: a save that fails\<close>

text \<open>
  C4, as stated, fails when the server's error string is present but empty: the handler
  reads it with \<^verbatim>\<open>response.error || "Failed to save configuration"\<close>, an empty string is
  falsy, and the fallback is shown instead of the server's string.
\<close>

theorem empty_save_error_gets_fallback:
  "error (run demoProps
      [EffectRun (Inr noConfig),
       InputChange ''store_url'' ''a.myshopify.com'',
       SaveClick (Inr \<lparr>cfg_success = False, cfg_data = None, cfg_error = Some []\<rparr>) netFault]
      initialState)
     = Some ''Failed to save configuration''"
  by (simp add: demo_defs handler_defs setter_defs initialState_def Let_def js_or_def
           truthy_def)

text \<open>
  C4, amended. For a save whose response has \<^verbatim>\<open>success: false\<close>, the error slot holds
  the server's error string when that string is present and not empty, and the fixed text
  ``Failed to save configuration'' when it is absent or empty; the displayed status is not
  modified. A rejected save call sets ``An unexpected error occurred'' and does not modify
  the status either.
\<close>

theorem save_failure_outcomes:
  "(\<not> cfg_success r \<longrightarrow>
      (\<forall>e. cfg_error r = Some e \<and> e \<noteq> [] \<longrightarrow>
           error (handleSaveConfig p (Inr r) getOut st) = Some e) \<and>
      (cfg_error r = None \<or> cfg_error r = Some [] \<longrightarrow>
           error (handleSaveConfig p (Inr r) getOut st) = Some ''Failed to save configuration'') \<and>
      integrationStatus (handleSaveConfig p (Inr r) getOut st) = integrationStatus st) \<and>
   error (handleSaveConfig p (Inl f) getOut st) = Some ''An unexpected error occurred'' \<and>
   integrationStatus (handleSaveConfig p (Inl f) getOut st) = integrationStatus st"
  by (auto simp: handler_defs setter_defs Let_def js_or_def truthy_def
           split: sum.splits option.splits)

theorem save_failure_outcomes_witness:
  "\<not> cfg_success \<lparr>cfg_success = False, cfg_data = None, cfg_error = Some ''bad token''\<rparr> \<and>
   cfg_error \<lparr>cfg_success = False, cfg_data = None, cfg_error = Some ''bad token''\<rparr>
     = Some ''bad token'' \<and>
   ''bad token'' \<noteq> [] \<and>
   error (handleSaveConfig demoProps
      (Inr \<lparr>cfg_success = False, cfg_data = None, cfg_error = Some ''bad token''\<rparr>) netFault
      initialState) = Some ''bad token'' \<and>
   \<not> cfg_success noConfig \<and> cfg_error noConfig = None \<and>
   error (handleSaveConfig demoProps (Inr noConfig) netFault initialState)
     = Some ''Failed to save configuration''"
  using save_failure_outcomes
          [of "\<lparr>cfg_success = False, cfg_data = None, cfg_error = Some ''bad token''\<rparr>"
              demoProps netFault initialState]
        save_failure_outcomes [of noConfig demoProps netFault initialState]
  by (simp add: demo_defs)

subsection \<open>C5: absence and faults in a status fetch\<close>

text \<open>
  C5. When \<^verbatim>\<open>getConfig\<close> answers with \<^verbatim>\<open>success: false\<close> or without data, the status
  becomes not integrated and the error slot is empty. When the call is rejected, the error
  slot holds ``Failed to fetch integration status'' and the status becomes not integrated.
  An error left from before never survives a fetch: a fetch that is answered ends with an
  empty error slot, and the state after a fetch is the same whatever the error slot held
  before it.
\<close>

theorem fetch_absence_and_fault:
  "(\<not> cfg_success r \<or> cfg_data r = None \<longrightarrow>
      integrationStatus (fetchIntegrationStatus p (Inr r) st) = notIntegrated \<and>
      \<not> isIntegrated (integrationStatus (fetchIntegrationStatus p (Inr r) st)) \<and>
      error (fetchIntegrationStatus p (Inr r) st) = None) \<and>
   error (fetchIntegrationStatus p (Inl f) st) = Some ''Failed to fetch integration status'' \<and>
   integrationStatus (fetchIntegrationStatus p (Inl f) st) = notIntegrated \<and>
   error (fetchIntegrationStatus p (Inr r) st) = None \<and>
   fetchIntegrationStatus p getOut (st\<lparr>error := e\<rparr>) = fetchIntegrationStatus p getOut st"
  by (auto simp: handler_defs setter_defs Let_def notIntegrated_def
           split: sum.splits option.splits)

theorem fetch_absence_and_fault_witness:
  "\<not> cfg_success noConfig \<and>
   integrationStatus (fetchIntegrationStatus demoProps (Inr noConfig)
      (initialState\<lparr>error := Some ''stale''\<rparr>)) = notIntegrated \<and>
   error (fetchIntegrationStatus demoProps (Inr noConfig)
      (initialState\<lparr>error := Some ''stale''\<rparr>)) = None"
  using fetch_absence_and_fault
          [of noConfig demoProps "initialState\<lparr>error := Some ''stale''\<rparr>"]
  by (simp add: demo_defs)

subsection \<open>C6: the token in the draft and in the displayed status\<close>

text \<open>
  C6, as stated, fails. First, the draft token is not empty after every fetch: the user
  types a token and saves, the save succeeds, the status fetch that follows is rejected,
  and the draft still holds the typed token, because a fetch writes the draft only when it
  is answered with data. Second, a token that the server reports as the empty string is
  falsy, and the displayed token is then absent, not the mask.
\<close>

theorem draft_token_survives_failed_refetch:
  "access_token (formData (run demoProps
      [EffectRun (Inr noConfig),
       InputChange ''store_url'' ''a.myshopify.com'',
       InputChange ''access_token'' ''shpat_x'',
       SaveClick (Inr savedOk) netFault] initialState)) = ''shpat_x'' \<and>
   status_access_token (integrationStatus (fetchIntegrationStatus demoProps
      (Inr (configPresent\<lparr>cfg_data := Some (demoData\<lparr>data_access_token := Some []\<rparr>)\<rparr>))
      initialState)) = None"
  by (simp add: demo_defs handler_defs setter_defs initialState_def defaultFormData_def
           Let_def truthy_def)

text \<open>
  C6, amended. After a status fetch answered with \<^verbatim>\<open>success: true\<close> and data, the draft
  token is the empty string, and the displayed token is the mask of sixteen bullets when
  the server reports a non-empty token and absent otherwise. After any other status fetch
  (no data, \<^verbatim>\<open>success: false\<close>, or a rejected call) the draft is left as it was. So the
  draft token never comes from server data, and the state after a fetch is the same for any
  two non-empty tokens the server may report: the real token is never displayed.
\<close>

theorem fetch_never_reveals_token:
  "(cfg_success r \<and> cfg_data r = Some d \<longrightarrow>
      access_token (formData (fetchIntegrationStatus p (Inr r) st)) = [] \<and>
      status_access_token (integrationStatus (fetchIntegrationStatus p (Inr r) st))
        = (if truthy (data_access_token d) then Some MASK else None)) \<and>
   (\<not> cfg_success r \<or> cfg_data r = None \<longrightarrow>
      formData (fetchIntegrationStatus p (Inr r) st) = formData st) \<and>
   formData (fetchIntegrationStatus p (Inl f) st) = formData st \<and>
   (t \<noteq> [] \<and> t' \<noteq> [] \<longrightarrow>
      fetchIntegrationStatus p (Inr (r\<lparr>cfg_data := Some (d\<lparr>data_access_token := Some t\<rparr>)\<rparr>)) st
        = fetchIntegrationStatus p
            (Inr (r\<lparr>cfg_data := Some (d\<lparr>data_access_token := Some t'\<rparr>)\<rparr>)) st) \<and>
   MASK = concat (replicate 16 bullet)"
  by (auto simp: handler_defs setter_defs Let_def truthy_def MASK_def
           split: sum.splits option.splits)

theorem fetch_never_reveals_token_witness:
  "cfg_success configPresent \<and> cfg_data configPresent = Some demoData \<and>
   access_token (formData (fetchIntegrationStatus demoProps (Inr configPresent)
      (handleInputChange ''access_token'' ''shpat_x'' initialState))) = [] \<and>
   status_access_token (integrationStatus (fetchIntegrationStatus demoProps (Inr configPresent)
      (handleInputChange ''access_token'' ''shpat_x'' initialState))) = Some MASK \<and>
   cfg_data noConfig = None \<and>
   formData (fetchIntegrationStatus demoProps (Inr noConfig)
      (handleInputChange ''access_token'' ''shpat_x'' initialState))
     = defaultFormData\<lparr>access_token := ''shpat_x''\<rparr>"
  using fetch_never_reveals_token
          [of configPresent demoData demoProps
              "handleInputChange ''access_token'' ''shpat_x'' initialState"]
        fetch_never_reveals_token
          [of noConfig demoData demoProps
              "handleInputChange ''access_token'' ''shpat_x'' initialState"]
  by (simp add: demo_defs truthy_def handleInputChange_def setter_defs initialState_def)

subsection \<open>C7: the frame of a connection test\<close>

text \<open>
  C7. Whatever the outcome of \<^verbatim>\<open>testConnection\<close>, the displayed status and the draft are
  as before, and the state after the action differs from the state before it only in the
  loading flag, the two message slots and the log of issued calls (one more
  \<^verbatim>\<open>testConnection\<close>). A rejected call sets the error ``Connection test failed'' and no
  success message.
\<close>

theorem test_connection_frame:
  "integrationStatus (handleTestConnection p testOut st) = integrationStatus st \<and>
   formData (handleTestConnection p testOut st) = formData st \<and>
   handleTestConnection p testOut st
     = st\<lparr>loading := False,
          error := error (handleTestConnection p testOut st),
          success := success (handleTestConnection p testOut st),
          calls := calls st @ [TestConnection (businessId p)]\<rparr> \<and>
   error (handleTestConnection p (Inl f) st) = Some ''Connection test failed'' \<and>
   success (handleTestConnection p (Inl f) st) = None"
  by (simp add: handler_defs setter_defs Let_def split: sum.splits option.splits)

subsection \<open>C8: declining the confirmation\<close>

text \<open>
  C8. When the user declines the confirmation, the delete handler returns the state it was
  given: status, draft, flags and both messages are as before, and the log of service calls
  is as before, so no \<^verbatim>\<open>deleteConfig\<close> call was issued.
\<close>

theorem declined_delete_changes_nothing:
  "handleDeleteConfig p False delOut st = st"
  by (simp add: handleDeleteConfig_def)

subsection \<open>C9: the in-flight flags\<close>

text \<open>
  C9. Every handler is a total function of the settled outcome of its calls, and on every
  path (response with success, response with failure, rejected call) a status fetch and a
  connection test end with \<^verbatim>\<open>loading\<close> off, a save ends with \<^verbatim>\<open>saving\<close> off and a
  confirmed delete ends with \<^verbatim>\<open>deleting\<close> off. Every event takes an idle form to an
  idle form, so every state reached from the initial state is idle.
\<close>

theorem flags_reset_and_idle:
  "\<not> loading (fetchIntegrationStatus p getOut st) \<and>
   \<not> saving (handleSaveConfig p saveOut getOut st) \<and>
   \<not> deleting (handleDeleteConfig p True delOut st) \<and>
   \<not> loading (handleTestConnection p testOut st) \<and>
   (idle st \<longrightarrow> idle (step p ev st)) \<and>
   idle (run p evs initialState)"
proof -
  have "idle initialState"
    by (simp add: idle_def initialState_def)
  then have "idle (run p evs initialState)"
    by (rule run_idle)
  moreover have "\<not> saving (handleSaveConfig p saveOut getOut st)"
    by (simp add: handler_defs setter_defs Let_def split: sum.splits option.splits)
  moreover have "\<not> deleting (handleDeleteConfig p True delOut st)"
    by (simp add: handler_defs setter_defs Let_def split: sum.splits option.splits)
  moreover have "\<not> loading (fetchIntegrationStatus p getOut st)"
    by (simp add: handler_defs setter_defs Let_def split: sum.splits option.splits)
  moreover have "\<not> loading (handleTestConnection p testOut st)"
    by (simp add: handler_defs setter_defs Let_def split: sum.splits option.splits)
  ultimately show ?thesis
    by (simp add: step_idle)
qed

theorem flags_reset_and_idle_witness:
  "idle initialState \<and> idle (step demoProps (SaveClick (Inr savedOk) netFault) initialState)"
  using flags_reset_and_idle
          [of demoProps netFault initialState "Inr savedOk" _ _ "SaveClick (Inr savedOk) netFault"]
  by (simp add: idle_def initialState_def)

subsection \<open>C10: a successful fetch overwrites the draft\<close>

text \<open>
  C10. A status fetch answered with \<^verbatim>\<open>success: true\<close> and data sets the draft to the
  server's store and version with an empty token, whatever the draft held before; the same
  holds for the fetch made inside a successful save. Edits not yet saved are discarded.
\<close>

theorem successful_fetch_overwrites_draft:
  "cfg_success r \<and> cfg_data r = Some d \<longrightarrow>
     formData (fetchIntegrationStatus p (Inr r) st)
       = \<lparr>store_url = data_store_url d, access_token = [], api_version = data_api_version d\<rparr> \<and>
     (cfg_success sr \<longrightarrow>
        formData (handleSaveConfig p (Inr sr) (Inr r) st)
          = \<lparr>store_url = data_store_url d, access_token = [],
             api_version = data_api_version d\<rparr>)"
  by (simp add: handler_defs setter_defs Let_def split: sum.splits option.splits)

theorem successful_fetch_overwrites_draft_witness:
  "cfg_success configPresent \<and> cfg_data configPresent = Some demoData \<and>
   formData (fetchIntegrationStatus demoProps (Inr configPresent)
      (handleInputChange ''store_url'' ''b.myshopify.com'' initialState))
     = \<lparr>store_url = ''a.myshopify.com'', access_token = [], api_version = ''2024-01''\<rparr> \<and>
   cfg_success savedOk \<and>
   formData (handleSaveConfig demoProps (Inr savedOk) (Inr configPresent)
      (handleInputChange ''store_url'' ''b.myshopify.com'' initialState))
     = \<lparr>store_url = ''a.myshopify.com'', access_token = [], api_version = ''2024-01''\<rparr>"
  using successful_fetch_overwrites_draft
          [of configPresent demoData demoProps
              "handleInputChange ''store_url'' ''b.myshopify.com'' initialState" savedOk]
  by (simp add: demo_defs)

end
